theory Spec2Isabelle
  imports Complex_Main "HOL-Library.Char_ord" "HOL-Library.List_Lexorder"
begin

section \<open>Python values\<close>

text \<open>
  The scripts work on what \<^verbatim>\<open>resp.json()\<close> returns: \<^verbatim>\<open>None\<close>, booleans, integers,
  floats, strings, lists and dictionaries with string keys. A dictionary is the list of
  its items in insertion order; a lookup takes the first binding of a key.

  A float that comes out of JSON is modelled by the real number it denotes, and float
  addition by addition of reals: rounding, and the overflow of a sum or of a decimal
  literal to \<^verbatim>\<open>inf\<close>, are not modelled. The values \<^verbatim>\<open>inf\<close> and \<^verbatim>\<open>nan\<close>, which
  \<^verbatim>\<open>float()\<close> reads from the strings of these names, are values of \<open>pyfloat\<close>.
  Strings are byte strings. The readers of numbers below are those of Python on ASCII
  strings; the digits and the white space that Python knows outside ASCII are not
  modelled, so the properties of these readers are stated for ASCII strings.
\<close>

datatype pyval =
    PNone
  | PBool bool
  | PInt int
  | PFloat real
  | PStr string
  | PList "pyval list"
  | PDict "(string \<times> pyval) list"

type_synonym pydict = "(string \<times> pyval) list"

datatype pyfloat = Fin real | PosInf | NegInf | NaN

text \<open>
  The pieces of a formatted message: literal text, and \<open>Shown v\<close> for the text that an
  f-string puts in place of \<^verbatim>\<open>{v}\<close>.
\<close>

datatype part = Lit string | Shown pyval

text \<open>
  The exceptions the scripts can end with. Both \<^verbatim>\<open>RuntimeError\<close>s of the source are
  kept apart by their message: \<open>RuntimeError_token name\<close> is the request to configure the
  token in the environment variable \<open>name\<close>, \<open>RuntimeError_api parts\<close> is an
  \<^verbatim>\<open>API error\<close> message. \<open>RequestException\<close> stands for everything that
  \<^verbatim>\<open>requests.post\<close>, \<^verbatim>\<open>raise_for_status\<close> and \<^verbatim>\<open>resp.json\<close> raise.
\<close>

datatype error =
    RuntimeError_token string
  | RuntimeError_api "part list"
  | TypeError
  | ValueError
  | OverflowError
  | AttributeError
  | RequestException
  | OperationalError
  | InterfaceError
  | OSError

definition ebind :: "error + 'a \<Rightarrow> ('a \<Rightarrow> error + 'b) \<Rightarrow> error + 'b" where
  "ebind m f = (case m of Inl e \<Rightarrow> Inl e | Inr x \<Rightarrow> f x)"

fun truthy :: "pyval \<Rightarrow> bool" where
  "truthy PNone = False"
| "truthy (PBool b) = b"
| "truthy (PInt i) = (i \<noteq> 0)"
| "truthy (PFloat r) = (r \<noteq> 0)"
| "truthy (PStr s) = (s \<noteq> [])"
| "truthy (PList xs) = (xs \<noteq> [])"
| "truthy (PDict d) = (d \<noteq> [])"

text \<open>\<^verbatim>\<open>a or b\<close>\<close>

definition py_or :: "pyval \<Rightarrow> pyval \<Rightarrow> pyval" where
  "py_or a b = (if truthy a then a else b)"

text \<open>\<^verbatim>\<open>d.get(k, default)\<close> on a dictionary, and on any value (only a dictionary has \<^verbatim>\<open>get\<close>).\<close>

definition dict_get :: "pydict \<Rightarrow> string \<Rightarrow> pyval \<Rightarrow> pyval" where
  "dict_get d k dflt = (case map_of d k of None \<Rightarrow> dflt | Some v \<Rightarrow> v)"

definition py_get :: "pyval \<Rightarrow> string \<Rightarrow> pyval \<Rightarrow> error + pyval" where
  "py_get v k dflt = (case v of PDict d \<Rightarrow> Inr (dict_get d k dflt) | _ \<Rightarrow> Inl AttributeError)"

text \<open>\<^verbatim>\<open>v == n\<close> for an integer \<open>n\<close> and \<^verbatim>\<open>v == s\<close> for a string \<open>s\<close>: numbers compare by value,
  with \<^verbatim>\<open>False\<close> and \<^verbatim>\<open>True\<close> as 0 and 1; a string equals no number.\<close>

fun py_eq_int :: "pyval \<Rightarrow> int \<Rightarrow> bool" where
  "py_eq_int (PInt i) n = (i = n)"
| "py_eq_int (PBool b) n = ((if b then 1 else 0) = n)"
| "py_eq_int (PFloat r) n = (r = of_int n)"
| "py_eq_int _ n = False"

fun py_eq_str :: "pyval \<Rightarrow> string \<Rightarrow> bool" where
  "py_eq_str (PStr t) s = (t = s)"
| "py_eq_str _ s = False"

text \<open>\<^verbatim>\<open>v > 0\<close>: defined on numbers, a \<^verbatim>\<open>TypeError\<close> on everything else.\<close>

fun py_gt_zero :: "pyval \<Rightarrow> error + bool" where
  "py_gt_zero (PInt i) = Inr (0 < i)"
| "py_gt_zero (PBool b) = Inr b"
| "py_gt_zero (PFloat r) = Inr (0 < r)"
| "py_gt_zero _ = Inl TypeError"

text \<open>Iterating a value, as \<^verbatim>\<open>list.extend\<close> does: a list gives its elements, a string its
  characters, a dictionary its keys; nothing else is iterable.\<close>

fun py_iter :: "pyval \<Rightarrow> error + pyval list" where
  "py_iter (PList xs) = Inr xs"
| "py_iter (PStr s) = Inr (map (\<lambda>c. PStr [c]) s)"
| "py_iter (PDict d) = Inr (map (\<lambda>kv. PStr (fst kv)) d)"
| "py_iter _ = Inl TypeError"

subsection \<open>Reading numbers from strings\<close>

definition is_digit :: "char \<Rightarrow> bool" where
  "is_digit c = (c \<in> set ''0123456789'')"

definition digit_val :: "char \<Rightarrow> nat" where
  "digit_val c = length (takeWhile (\<lambda>d. d \<noteq> c) ''0123456789'')"

text \<open>The white space that \<^verbatim>\<open>int()\<close> and \<^verbatim>\<open>float()\<close> skip at both ends of an ASCII
  string: tab, line feed, vertical tab, form feed, carriage return and space.\<close>

definition is_space :: "char \<Rightarrow> bool" where
  "is_space c = (c \<in> set [CHR 0x09, CHR 0x0A, CHR 0x0B, CHR 0x0C, CHR 0x0D, CHR 0x20])"

definition strip :: "string \<Rightarrow> string" where
  "strip s = rev (dropWhile is_space (rev (dropWhile is_space s)))"

definition lower :: "char \<Rightarrow> char" where
  "lower c = (case map_of (zip ''ABCDEFGHIJKLMNOPQRSTUVWXYZ'' ''abcdefghijklmnopqrstuvwxyz'') c of
                None \<Rightarrow> c | Some l \<Rightarrow> l)"

definition take_sign :: "string \<Rightarrow> bool \<times> string" where
  "take_sign s = (case s of
      [] \<Rightarrow> (False, [])
    | c # r \<Rightarrow> if c = CHR ''-'' then (True, r) else if c = CHR ''+'' then (False, r) else (False, s))"

text \<open>
  The longest run of digits at the head of a string, with the rest. One underscore may
  stand between two digits (\<open>after\<close> says that the character before was a digit); the
  digits are returned without the underscores.
\<close>

fun digitpart :: "bool \<Rightarrow> string \<Rightarrow> string \<times> string" where
  "digitpart after [] = ([], [])"
| "digitpart after (c # cs) =
     (if is_digit c then (case digitpart True cs of (ds, r) \<Rightarrow> (c # ds, r))
      else if after \<and> c = CHR ''_'' \<and> (case cs of [] \<Rightarrow> False | d # _ \<Rightarrow> is_digit d)
        then digitpart False cs
      else ([], c # cs))"

definition nat_of_digits :: "string \<Rightarrow> nat" where
  "nat_of_digits ds = foldl (\<lambda>n c. 10 * n + digit_val c) 0 ds"

text \<open>The exponent of a float literal: nothing, or \<^verbatim>\<open>e\<close>, a sign and digits. \<open>None\<close> when an
  \<^verbatim>\<open>e\<close> is followed by no digit.\<close>

definition exponent_part :: "string \<Rightarrow> (int \<times> string) option" where
  "exponent_part s = (case s of
      [] \<Rightarrow> Some (0, [])
    | c # r \<Rightarrow>
        if c = CHR ''e'' \<or> c = CHR ''E'' then
          (case take_sign r of (neg, r') \<Rightarrow>
            (case digitpart False r' of (ds, r'') \<Rightarrow>
              if ds = [] then None
              else Some (if neg then - int (nat_of_digits ds) else int (nat_of_digits ds), r'')))
        else Some (0, s))"

definition scale10 :: "nat \<Rightarrow> int \<Rightarrow> real" where
  "scale10 m e = (if 0 \<le> e then of_nat m * 10 ^ nat e else of_nat m / 10 ^ nat (- e))"

text \<open>An unsigned decimal literal: digits, an optional point with digits on at least one
  side of it, an optional exponent, and nothing after it.\<close>

definition float_literal :: "string \<Rightarrow> real option" where
  "float_literal s =
     (case digitpart False s of (ip, r1) \<Rightarrow>
       (case (case r1 of [] \<Rightarrow> ([], r1)
                | c # r \<Rightarrow> if c = CHR ''.'' then digitpart False r else ([], r1)) of (fp, r2) \<Rightarrow>
         if ip = [] \<and> fp = [] then None
         else (case exponent_part r2 of
                 Some (e, []) \<Rightarrow> Some (scale10 (nat_of_digits (ip @ fp)) (e - int (length fp)))
               | _ \<Rightarrow> None)))"

text \<open>\<^verbatim>\<open>float(s)\<close> for a string: \<open>None\<close> is the \<^verbatim>\<open>ValueError\<close>.\<close>

definition float_of_str :: "string \<Rightarrow> pyfloat option" where
  "float_of_str s =
     (case take_sign (strip s) of (neg, body) \<Rightarrow>
        if map lower body = ''inf'' \<or> map lower body = ''infinity''
          then Some (if neg then NegInf else PosInf)
        else if map lower body = ''nan'' then Some NaN
        else map_option (\<lambda>r. Fin (if neg then - r else r)) (float_literal body))"

text \<open>\<^verbatim>\<open>int(s)\<close> for a string, base ten: \<open>None\<close> is the \<^verbatim>\<open>ValueError\<close>, which is also
  raised for more than 4300 digits (the interpreter's default limit).\<close>

definition int_of_str :: "string \<Rightarrow> int option" where
  "int_of_str s =
     (case take_sign (strip s) of (neg, body) \<Rightarrow>
        (case digitpart False body of
           (ds, []) \<Rightarrow> if ds = [] \<or> length ds > 4300 then None
                        else Some (if neg then - int (nat_of_digits ds) else int (nat_of_digits ds))
         | _ \<Rightarrow> None))"

text \<open>
  \<^verbatim>\<open>float(v)\<close>. An integer too large for a double is an \<^verbatim>\<open>OverflowError\<close>: the
  largest double is \<open>2 ^ 1024 - 2 ^ 971\<close> and an integer rounds to it below
  \<open>2 ^ 1024 - 2 ^ 970\<close>.
\<close>

fun py_float :: "pyval \<Rightarrow> error + pyfloat" where
  "py_float (PFloat r) = Inr (Fin r)"
| "py_float (PInt i) =
     (if \<bar>i\<bar> < 2 ^ 1024 - 2 ^ 970 then Inr (Fin (of_int i)) else Inl OverflowError)"
| "py_float (PBool b) = Inr (Fin (if b then 1 else 0))"
| "py_float (PStr s) = (case float_of_str s of None \<Rightarrow> Inl ValueError | Some f \<Rightarrow> Inr f)"
| "py_float _ = Inl TypeError"

text \<open>\<^verbatim>\<open>int(v)\<close>: a float is cut towards zero.\<close>

fun py_int :: "pyval \<Rightarrow> error + int" where
  "py_int (PInt i) = Inr i"
| "py_int (PBool b) = Inr (if b then 1 else 0)"
| "py_int (PFloat r) = Inr (if 0 \<le> r then \<lfloor>r\<rfloor> else \<lceil>r\<rceil>)"
| "py_int (PStr s) = (case int_of_str s of None \<Rightarrow> Inl ValueError | Some i \<Rightarrow> Inr i)"
| "py_int _ = Inl TypeError"

text \<open>Float addition, \<^verbatim>\<open>a + b\<close>.\<close>

fun fadd :: "pyfloat \<Rightarrow> pyfloat \<Rightarrow> pyfloat" where
  "fadd (Fin a) (Fin b) = Fin (a + b)"
| "fadd NaN _ = NaN"
| "fadd _ NaN = NaN"
| "fadd PosInf NegInf = NaN"
| "fadd NegInf PosInf = NaN"
| "fadd PosInf _ = PosInf"
| "fadd _ PosInf = PosInf"
| "fadd NegInf _ = NegInf"
| "fadd _ NegInf = NegInf"


section \<open>The Lookup Store (sync\_products.py, daily\_amazon\_report.py)\<close>

text \<open>
  The table \<^verbatim>\<open>products\<close> of \<^verbatim>\<open>products.db\<close>: a list of rows. All five columns are
  declared \<^verbatim>\<open>TEXT\<close>, so a column holds \<^verbatim>\<open>NULL\<close> (\<open>None\<close>) or a text. A connection
  is \<open>None\<close> when the database file has no table \<^verbatim>\<open>products\<close> (\<^verbatim>\<open>init_db\<close> has
  not run): every statement then ends with an \<^verbatim>\<open>OperationalError\<close>.
\<close>

record product_row =
  asin_col :: "string option"
  brand_id_col :: "string option"
  brand_name_col :: "string option"
  title_col :: "string option"
  country_code_col :: "string option"

type_synonym products = "product_row list"

type_synonym conn = "products option"

function dec_nat :: "nat \<Rightarrow> string" where
  "dec_nat n = (if n < 10 then [''0123456789'' ! n]
                else dec_nat (n div 10) @ [''0123456789'' ! (n mod 10)])"
  by pat_completeness auto
termination
  by (relation "measure id") auto

declare dec_nat.simps [simp del]

definition dec_int :: "int \<Rightarrow> string" where
  "dec_int i = (if i < 0 then CHR ''-'' # dec_nat (nat (- i)) else dec_nat (nat i))"

text \<open>
  What a \<^verbatim>\<open>TEXT\<close> column makes of a bound Python value: \<^verbatim>\<open>None\<close> is \<^verbatim>\<open>NULL\<close>, a string
  is itself, a number is converted to its text, and a list or a dictionary cannot be
  bound (\<open>InterfaceError\<close>; newer versions of the \<^verbatim>\<open>sqlite3\<close> module raise
  \<^verbatim>\<open>ProgrammingError\<close> instead). An integer outside 64 bits is an \<^verbatim>\<open>OverflowError\<close>. How the database engine
  writes a float as text is not part of the repository: it is the parameter
  \<open>real_text\<close> of everything that binds a value.
\<close>

fun sql_text :: "(real \<Rightarrow> string) \<Rightarrow> pyval \<Rightarrow> error + string option" where
  "sql_text real_text PNone = Inr None"
| "sql_text real_text (PStr s) = Inr (Some s)"
| "sql_text real_text (PBool b) = Inr (Some (if b then ''1'' else ''0''))"
| "sql_text real_text (PInt i) =
     (if - (2 ^ 63) \<le> i \<and> i < 2 ^ 63 then Inr (Some (dec_int i)) else Inl OverflowError)"
| "sql_text real_text (PFloat r) = Inr (Some (real_text r))"
| "sql_text real_text _ = Inl InterfaceError"

text \<open>
  \<^verbatim>\<open>INSERT INTO products ... ON CONFLICT(asin) DO UPDATE SET brand_id=excluded.brand_id, ...\<close>:
  a row with the same \<^verbatim>\<open>asin\<close> gets the four other columns of the new row, and
  without such a row the new row is added. A \<^verbatim>\<open>NULL\<close> key conflicts with nothing.
\<close>

definition insert_on_conflict_update :: "products \<Rightarrow> product_row \<Rightarrow> products" where
  "insert_on_conflict_update tbl excluded =
     (if asin_col excluded \<noteq> None \<and> asin_col excluded \<in> set (map asin_col tbl)
      then map (\<lambda>r. if asin_col r = asin_col excluded
                     then r\<lparr>brand_id_col := brand_id_col excluded,
                            brand_name_col := brand_name_col excluded,
                            title_col := title_col excluded,
                            country_code_col := country_code_col excluded\<rparr>
                     else r) tbl
      else tbl @ [excluded])"

definition execute_upsert ::
  "(real \<Rightarrow> string) \<Rightarrow> conn \<Rightarrow> pyval \<times> pyval \<times> pyval \<times> pyval \<times> pyval \<Rightarrow> error + conn" where
  "execute_upsert real_text conn params =
     (case conn of
        None \<Rightarrow> Inl OperationalError
      | Some tbl \<Rightarrow>
          (case params of (asin, brand_id, brand_name, title, country_code) \<Rightarrow>
            ebind (sql_text real_text asin) (\<lambda>a.
            ebind (sql_text real_text brand_id) (\<lambda>bi.
            ebind (sql_text real_text brand_name) (\<lambda>bn.
            ebind (sql_text real_text title) (\<lambda>ti.
            ebind (sql_text real_text country_code) (\<lambda>cc.
              Inr (Some (insert_on_conflict_update tbl
                    \<lparr>asin_col = a, brand_id_col = bi, brand_name_col = bn,
                     title_col = ti, country_code_col = cc\<rparr>)))))))))"

text \<open>\<^verbatim>\<open>upsert_product(conn, product)\<close> of sync\_products.py; the connection is returned
  as the statement leaves it.\<close>

definition upsert_product :: "(real \<Rightarrow> string) \<Rightarrow> conn \<Rightarrow> pydict \<Rightarrow> error + conn" where
  "upsert_product real_text conn product =
     (let asin = dict_get product ''asin'' PNone in
      if \<not> truthy asin then Inr conn
      else
        let brand_id = dict_get product ''brand_id'' PNone;
            brand_name = py_or (dict_get product ''brand_name'' PNone) (dict_get product ''brand'' PNone);
            title = py_or (dict_get product ''title'' PNone) (dict_get product ''name'' PNone);
            country_code = dict_get product ''country_code'' PNone
        in execute_upsert real_text conn (asin, brand_id, brand_name, title, country_code))"

text \<open>
  \<^verbatim>\<open>SELECT brand_name FROM products WHERE asin = ?\<close> and \<^verbatim>\<open>fetchone()\<close>: the
  \<^verbatim>\<open>brand_name\<close> of the first row whose key is the bound value; \<^verbatim>\<open>NULL\<close> equals
  nothing.
\<close>

definition select_brand_name :: "products \<Rightarrow> string option \<Rightarrow> string option list" where
  "select_brand_name tbl a =
     map brand_name_col (filter (\<lambda>r. a \<noteq> None \<and> asin_col r = a) tbl)"

definition fetchone :: "'a list \<Rightarrow> 'a option" where
  "fetchone rows = (case rows of [] \<Rightarrow> None | r # _ \<Rightarrow> Some r)"

text \<open>\<^verbatim>\<open>get_brand_name_from_db(conn, asin)\<close> of daily\_amazon\_report.py.\<close>

definition get_brand_name_from_db :: "(real \<Rightarrow> string) \<Rightarrow> conn \<Rightarrow> pyval \<Rightarrow> error + string" where
  "get_brand_name_from_db real_text conn asin =
     (case conn of
        None \<Rightarrow> Inl OperationalError
      | Some tbl \<Rightarrow>
          ebind (sql_text real_text asin) (\<lambda>a.
            (case fetchone (select_brand_name tbl a) of
               Some (Some name) \<Rightarrow> if name \<noteq> [] then Inr name else Inr ''Unknown''
             | _ \<Rightarrow> Inr ''Unknown'')))"

section \<open>Aggregation by brand\<close>

text \<open>The value of one brand in the result, and the \<^verbatim>\<open>defaultdict\<close>'s default.\<close>

record stats =
  orders :: int
  sales :: pyfloat
  commission :: pyfloat

definition default_stats :: stats where
  "default_stats = \<lparr>orders = 0, sales = Fin 0, commission = Fin 0\<rparr>"

text \<open>\<^verbatim>\<open>result[brand]\<close> on the \<^verbatim>\<open>defaultdict\<close>: a missing brand reads as the default.\<close>

definition entry :: "('k \<rightharpoonup> stats) \<Rightarrow> 'k \<Rightarrow> stats" where
  "entry result brand = (case result brand of None \<Rightarrow> default_stats | Some s \<Rightarrow> s)"

definition add_order :: "('k \<rightharpoonup> stats) \<Rightarrow> 'k \<Rightarrow> ('k \<rightharpoonup> stats)" where
  "add_order result brand =
     result(brand \<mapsto> (entry result brand)\<lparr>orders := orders (entry result brand) + 1\<rparr>)"

definition add_sales :: "('k \<rightharpoonup> stats) \<Rightarrow> 'k \<Rightarrow> pyfloat \<Rightarrow> ('k \<rightharpoonup> stats)" where
  "add_sales result brand x =
     result(brand \<mapsto> (entry result brand)\<lparr>sales := fadd (sales (entry result brand)) x\<rparr>)"

definition add_commission :: "('k \<rightharpoonup> stats) \<Rightarrow> 'k \<Rightarrow> pyfloat \<Rightarrow> ('k \<rightharpoonup> stats)" where
  "add_commission result brand x =
     result(brand \<mapsto> (entry result brand)\<lparr>commission := fadd (commission (entry result brand)) x\<rparr>)"

subsection \<open>Datafeed mode: daily\_amazon\_report.aggregate\_by\_brand\<close>

text \<open>The brand of a row: looked up by its \<^verbatim>\<open>asin\<close> when it has one, \<^verbatim>\<open>"Unknown"\<close>
  otherwise. \<open>conn\<close> is the connection that \<^verbatim>\<open>get_db_conn()\<close> opens.\<close>

definition amazon_brand :: "(real \<Rightarrow> string) \<Rightarrow> conn \<Rightarrow> pydict \<Rightarrow> error + string" where
  "amazon_brand real_text conn r =
     (let asin = dict_get r ''asin'' PNone in
      if truthy asin then get_brand_name_from_db real_text conn asin else Inr ''Unknown'')"

text \<open>The body of the loop over the rows, from the lookup of the brand to the last sum.\<close>

definition amazon_row ::
  "(real \<Rightarrow> string) \<Rightarrow> conn \<Rightarrow> (string \<rightharpoonup> stats) \<Rightarrow> pydict \<Rightarrow> error + (string \<rightharpoonup> stats)" where
  "amazon_row real_text conn result r =
     ebind (amazon_brand real_text conn r) (\<lambda>brand.
       let quantity = py_or (dict_get r ''quantity'' (PInt 0)) (PInt 0);
           sales_v = py_or (dict_get r ''sales'' (PFloat 0)) (PFloat 0);
           commission_v = py_or (dict_get r ''estCommission'' (PFloat 0)) (PFloat 0)
       in ebind (py_gt_zero quantity) (\<lambda>positive.
            let result1 = (if positive then add_order result brand else result)
            in ebind (py_float sales_v) (\<lambda>s.
                 ebind (py_float commission_v) (\<lambda>c.
                   Inr (add_commission (add_sales result1 brand s) brand c)))))"

fun amazon_rows ::
  "(real \<Rightarrow> string) \<Rightarrow> conn \<Rightarrow> (string \<rightharpoonup> stats) \<Rightarrow> pydict list \<Rightarrow> error + (string \<rightharpoonup> stats)" where
  "amazon_rows real_text conn result [] = Inr result"
| "amazon_rows real_text conn result (r # rows) =
     ebind (amazon_row real_text conn result r) (\<lambda>result'. amazon_rows real_text conn result' rows)"

definition amazon_aggregate_by_brand ::
  "(real \<Rightarrow> string) \<Rightarrow> conn \<Rightarrow> pydict list \<Rightarrow> error + (string \<rightharpoonup> stats)" where
  "amazon_aggregate_by_brand real_text conn rows = amazon_rows real_text conn Map.empty rows"

subsection \<open>Transaction mode: daily\_transaction\_report.aggregate\_by\_brand\<close>

text \<open>
  The brand is whatever \<^verbatim>\<open>merchant_name\<close> holds, so the keys of the result are Python
  values. As dictionary keys, numbers are equal when their values are (\<^verbatim>\<open>1\<close>,
  \<^verbatim>\<open>1.0\<close> and \<^verbatim>\<open>True\<close> are one key); a list or a dictionary is not hashable.
\<close>

datatype key = KStr string | KNum real | KNone

fun py_hash_key :: "pyval \<Rightarrow> error + key" where
  "py_hash_key (PStr s) = Inr (KStr s)"
| "py_hash_key (PInt i) = Inr (KNum (of_int i))"
| "py_hash_key (PBool b) = Inr (KNum (if b then 1 else 0))"
| "py_hash_key (PFloat r) = Inr (KNum r)"
| "py_hash_key PNone = Inr KNone"
| "py_hash_key _ = Inl TypeError"

text \<open>\<^verbatim>\<open>try: x = float(v or 0)\<close> \<^verbatim>\<open>except (TypeError, ValueError): x = 0.0\<close>\<close>

definition float_or_zero :: "pyval \<Rightarrow> error + pyfloat" where
  "float_or_zero v =
     (case py_float (py_or v (PInt 0)) of
        Inl e \<Rightarrow> if e = TypeError \<or> e = ValueError then Inr (Fin 0) else Inl e
      | Inr x \<Rightarrow> Inr x)"

text \<open>\<^verbatim>\<open>brand_name = t.get("merchant_name") or "Unknown"\<close>\<close>

definition transaction_brand :: "pydict \<Rightarrow> pyval" where
  "transaction_brand t = py_or (dict_get t ''merchant_name'' PNone) (PStr ''Unknown'')"

definition transaction_row :: "(key \<rightharpoonup> stats) \<Rightarrow> pydict \<Rightarrow> error + (key \<rightharpoonup> stats)" where
  "transaction_row result t =
     (let brand_name = transaction_brand t in
      ebind (float_or_zero (dict_get t ''sale_amount'' (PInt 0))) (\<lambda>sale_amount.
      ebind (float_or_zero (dict_get t ''sale_comm'' (PInt 0))) (\<lambda>sale_comm.
      ebind (py_hash_key brand_name) (\<lambda>k.
        Inr (add_commission (add_sales (add_order result k) k sale_amount) k sale_comm)))))"

fun transaction_rows :: "(key \<rightharpoonup> stats) \<Rightarrow> pydict list \<Rightarrow> error + (key \<rightharpoonup> stats)" where
  "transaction_rows result [] = Inr result"
| "transaction_rows result (t # transactions) =
     ebind (transaction_row result t) (\<lambda>result'. transaction_rows result' transactions)"

definition transaction_aggregate_by_brand :: "pydict list \<Rightarrow> error + (key \<rightharpoonup> stats)" where
  "transaction_aggregate_by_brand transactions = transaction_rows Map.empty transactions"

section \<open>The paginated fetchers\<close>

text \<open>
  The environment of a fetch: \<open>token\<close> is what \<^verbatim>\<open>os.getenv("PARTNERBOOST_TOKEN")\<close>
  returns, and \<open>post p\<close> is the outcome of the request for page \<open>p\<close>, that is of
  \<^verbatim>\<open>requests.post\<close>, \<^verbatim>\<open>raise_for_status\<close> and \<^verbatim>\<open>resp.json\<close> together: an exception or
  the decoded body. Within one fetch the requests differ in the page only and the page
  grows by one from request to request, so a function of the page stands for any
  sequence of responses. A fetch returns its outcome together with the list of the
  pages it requested, in the order of the requests.
\<close>

type_synonym server = "int \<Rightarrow> error + pyval"

type_synonym 'a fetched = "(error + 'a) \<times> int list"

definition TOKEN_ENV_NAME :: string where
  "TOKEN_ENV_NAME = ''PARTNERBOOST_TOKEN''"

text \<open>\<^verbatim>\<open>not token\<close>\<close>

definition no_token :: "string option \<Rightarrow> bool" where
  "no_token token = (case token of None \<Rightarrow> True | Some s \<Rightarrow> s = [])"

text \<open>How one pass through the body of a \<^verbatim>\<open>while True\<close> loop ends.\<close>

datatype 'a ctl = Break 'a | Continue 'a

subsection \<open>daily\_transaction\_report.fetch\_transactions (total\_page protocol)\<close>

text \<open>The body of the loop after the response is decoded: \<open>result\<close> is the body of the
  response to the request for \<open>page\<close>.\<close>

definition transaction_page :: "int \<Rightarrow> pyval list \<Rightarrow> pyval \<Rightarrow> error + pyval list ctl" where
  "transaction_page page all_items result =
     ebind (py_get result ''status'' (PDict [])) (\<lambda>status.
     ebind (py_get status ''code'' PNone) (\<lambda>code.
       if \<not> py_eq_int code 0
       then ebind (py_get status ''msg'' PNone) (\<lambda>msg.
              Inl (RuntimeError_api [Lit ''API error '', Shown code, Lit '': '', Shown msg]))
       else
         ebind (py_get result ''data'' (PDict [])) (\<lambda>data_block.
         ebind (py_get data_block ''list'' (PList [])) (\<lambda>items.
           if \<not> truthy items then Inr (Break all_items)
           else
             ebind (py_iter items) (\<lambda>xs.
             ebind (py_get data_block ''total_page'' (PInt 1)) (\<lambda>tp.
             ebind (py_int tp) (\<lambda>total_page.
               if page \<ge> total_page then Inr (Break (all_items @ xs))
               else Inr (Continue (all_items @ xs)))))))))"

partial_function (option) transaction_loop ::
  "server \<Rightarrow> int \<Rightarrow> pyval list \<Rightarrow> int list \<Rightarrow> (pyval list fetched) option" where
  "transaction_loop post page all_items requested =
     (case post page of
        Inl e \<Rightarrow> Some (Inl e, requested @ [page])
      | Inr result \<Rightarrow>
          (case transaction_page page all_items result of
             Inl e \<Rightarrow> Some (Inl e, requested @ [page])
           | Inr (Break items) \<Rightarrow> Some (Inr items, requested @ [page])
           | Inr (Continue items) \<Rightarrow> transaction_loop post (page + 1) items (requested @ [page])))"

definition fetch_transactions :: "string option \<Rightarrow> server \<Rightarrow> (pyval list fetched) option" where
  "fetch_transactions token post =
     (if no_token token then Some (Inl (RuntimeError_token TOKEN_ENV_NAME), [])
      else transaction_loop post 1 [] [])"

subsection \<open>daily\_amazon\_report.fetch\_amazon\_report (has\_more protocol)\<close>

definition amazon_page :: "pyval list \<Rightarrow> pyval \<Rightarrow> error + pyval list ctl" where
  "amazon_page all_rows data =
     ebind (py_get data ''status'' (PDict [])) (\<lambda>status.
     ebind (py_get status ''code'' PNone) (\<lambda>code.
       if \<not> py_eq_int code 0
       then ebind (py_get status ''msg'' PNone) (\<lambda>msg.
              Inl (RuntimeError_api [Lit ''API error: '', Shown code, Lit '' '', Shown msg]))
       else
         ebind (py_get data ''data'' (PDict [])) (\<lambda>data_block.
         ebind (py_get data_block ''list'' (PList [])) (\<lambda>page_list.
         ebind (py_iter page_list) (\<lambda>xs.
         ebind (py_get data_block ''has_more'' (PBool False)) (\<lambda>has_more.
           if \<not> truthy has_more then Inr (Break (all_rows @ xs))
           else Inr (Continue (all_rows @ xs))))))))"

partial_function (option) amazon_loop ::
  "server \<Rightarrow> int \<Rightarrow> pyval list \<Rightarrow> int list \<Rightarrow> (pyval list fetched) option" where
  "amazon_loop post page all_rows requested =
     (case post page of
        Inl e \<Rightarrow> Some (Inl e, requested @ [page])
      | Inr data \<Rightarrow>
          (case amazon_page all_rows data of
             Inl e \<Rightarrow> Some (Inl e, requested @ [page])
           | Inr (Break rows) \<Rightarrow> Some (Inr rows, requested @ [page])
           | Inr (Continue rows) \<Rightarrow> amazon_loop post (page + 1) rows (requested @ [page])))"

definition fetch_amazon_report :: "string option \<Rightarrow> server \<Rightarrow> (pyval list fetched) option" where
  "fetch_amazon_report token post =
     (if no_token token then Some (Inl (RuntimeError_token TOKEN_ENV_NAME), [])
      else amazon_loop post 1 [] [])"

subsection \<open>sync\_products.fetch\_fba\_products\_page (one page)\<close>

definition fba_envelope :: "pyval \<Rightarrow> error + pyval" where
  "fba_envelope data =
     ebind (py_get data ''status'' (PDict [])) (\<lambda>status.
     ebind (py_get status ''code'' PNone) (\<lambda>code.
       if \<not> (py_eq_int code 0 \<or> py_eq_str code ''0'')
       then ebind (py_get status ''msg'' PNone) (\<lambda>msg.
              Inl (RuntimeError_api
                     [Lit ''API error: code='', Shown code, Lit '', msg='', Shown msg]))
       else Inr data))"

definition fetch_fba_products_page :: "string option \<Rightarrow> server \<Rightarrow> int \<Rightarrow> pyval fetched" where
  "fetch_fba_products_page token post page =
     (if no_token token then (Inl (RuntimeError_token TOKEN_ENV_NAME), [])
      else (case post page of
              Inl e \<Rightarrow> (Inl e, [page])
            | Inr data \<Rightarrow> (fba_envelope data, [page])))"

subsection \<open>Reading a response envelope\<close>

text \<open>
  What a body says, read field by field: the status code and message, the items under
  \<^verbatim>\<open>data.list\<close> when they are a list, the declared \<^verbatim>\<open>data.total_page\<close> and the flag
  \<^verbatim>\<open>data.has_more\<close>. The theorems describe responses with these.
\<close>

definition field :: "pyval \<Rightarrow> string \<Rightarrow> pyval option" where
  "field v k = (case v of PDict d \<Rightarrow> map_of d k | _ \<Rightarrow> None)"

definition status_code :: "pyval \<Rightarrow> pyval option" where
  "status_code body = (case field body ''status'' of Some s \<Rightarrow> field s ''code'' | None \<Rightarrow> None)"

definition has_status :: "pyval \<Rightarrow> pyval \<Rightarrow> pyval \<Rightarrow> bool" where
  "has_status body code msg =
     (case field body ''status'' of
        Some (PDict s) \<Rightarrow> dict_get s ''code'' PNone = code \<and> dict_get s ''msg'' PNone = msg
      | _ \<Rightarrow> False)"

definition data_field :: "pyval \<Rightarrow> string \<Rightarrow> pyval option" where
  "data_field body k = (case field body ''data'' of Some (PDict d) \<Rightarrow> map_of d k | _ \<Rightarrow> None)"

definition page_items :: "pyval \<Rightarrow> pyval list option" where
  "page_items body = (case data_field body ''list'' of Some (PList xs) \<Rightarrow> Some xs | _ \<Rightarrow> None)"

text \<open>A successful envelope: the status is a dictionary whose code equals the integer 0.\<close>

definition status_ok :: "pyval \<Rightarrow> bool" where
  "status_ok body = (case status_code body of Some c \<Rightarrow> py_eq_int c 0 | None \<Rightarrow> False)"

text \<open>The continuation flag of a page: true when \<^verbatim>\<open>data.has_more\<close> is present and truthy.\<close>

definition has_more :: "pyval \<Rightarrow> bool" where
  "has_more body = (case data_field body ''has_more'' of None \<Rightarrow> False | Some v \<Rightarrow> truthy v)"

text \<open>An example of a body: status code \<open>code\<close> with a message, the items \<open>xs\<close> and further
  fields of \<^verbatim>\<open>data\<close>.\<close>

definition envelope :: "pyval \<Rightarrow> string \<Rightarrow> pyval list \<Rightarrow> pydict \<Rightarrow> pyval" where
  "envelope code msg xs extra =
     PDict [(''status'', PDict [(''code'', code), (''msg'', PStr msg)]),
            (''data'', PDict ((''list'', PList xs) # extra))]"

section \<open>The HTML report (daily\_transaction\_report.write\_html\_report)\<close>












section \<open>Vocabulary of the properties\<close>

text \<open>The rows of the table with the product code \<open>c\<close>.\<close>

definition rows_with :: "products \<Rightarrow> string \<Rightarrow> products" where
  "rows_with tbl c = filter (\<lambda>r. asin_col r = Some c) tbl"

text \<open>A row of the datafeed report whose \<^verbatim>\<open>quantity\<close> is present and a positive number
  (\<^verbatim>\<open>True\<close> is the number 1).\<close>

definition quantity_positive :: "pydict \<Rightarrow> bool" where
  "quantity_positive r =
     (case map_of r ''quantity'' of
        Some (PInt i) \<Rightarrow> 0 < i
      | Some (PFloat x) \<Rightarrow> 0 < x
      | Some (PBool b) \<Rightarrow> b
      | _ \<Rightarrow> False)"

definition is_ascii :: "char \<Rightarrow> bool" where
  "is_ascii c = (\<not> digit7 c)"

text \<open>A value that is no number: \<^verbatim>\<open>None\<close>, a list, a dictionary, or an ASCII string that
  \<^verbatim>\<open>float()\<close> does not read.\<close>

definition non_numeric :: "pyval \<Rightarrow> bool" where
  "non_numeric v =
     (case v of
        PNone \<Rightarrow> True
      | PStr s \<Rightarrow> list_all is_ascii s \<and> float_of_str s = None
      | PList xs \<Rightarrow> True
      | PDict d \<Rightarrow> True
      | _ \<Rightarrow> False)"

definition missing_or_non_numeric :: "pydict \<Rightarrow> string \<Rightarrow> bool" where
  "missing_or_non_numeric r k = (case map_of r k of None \<Rightarrow> True | Some v \<Rightarrow> non_numeric v)"

text \<open>A body that declares \<^verbatim>\<open>data.total_page\<close> to be the integer \<open>n\<close>.\<close>

definition declares_total_page :: "pyval \<Rightarrow> int \<Rightarrow> bool" where
  "declares_total_page body n = (data_field body ''total_page'' = Some (PInt n))"




subsection \<open>Example inputs\<close>

text \<open>A server with three pages of 3, 2 and 1 items, \<^verbatim>\<open>has_more\<close> true, true, false.\<close>

definition three_pages :: server where
  "three_pages p =
     (if p = 1 then Inr (envelope (PInt 0) ''success'' [PInt 1, PInt 2, PInt 3]
                          [(''has_more'', PBool True)])
      else if p = 2 then Inr (envelope (PInt 0) ''success'' [PInt 4, PInt 5]
                               [(''has_more'', PBool True)])
      else if p = 3 then Inr (envelope (PInt 0) ''success'' [PInt 6]
                               [(''has_more'', PBool False)])
      else Inl RequestException)"

definition three_bodies :: "int \<Rightarrow> pyval" where
  "three_bodies p = (case three_pages p of Inr b \<Rightarrow> b | Inl e \<Rightarrow> PNone)"

definition three_items :: "int \<Rightarrow> pyval list" where
  "three_items p = (case page_items (three_bodies p) of Some xs \<Rightarrow> xs | None \<Rightarrow> [])"

text \<open>A server that answers every page \<open>p\<close> with status \<open>code\<close>, the one item \<open>p\<close> and
  the further fields \<open>extra\<close> of \<^verbatim>\<open>data\<close>; it never runs out of pages.\<close>

definition numbered_pages :: "pyval \<Rightarrow> pydict \<Rightarrow> server" where
  "numbered_pages code extra p = Inr (envelope code ''success'' [PInt p] extra)"

text \<open>A server whose pages are all empty.\<close>

definition empty_pages :: "pydict \<Rightarrow> server" where
  "empty_pages extra p = Inr (envelope (PInt 0) ''success'' [] extra)"

definition example_products :: products where
  "example_products =
     [\<lparr>asin_col = Some ''B01'', brand_id_col = Some ''7'', brand_name_col = Some ''Acme'',
       title_col = Some ''Widget'', country_code_col = Some ''US''\<rparr>,
      \<lparr>asin_col = Some ''B02'', brand_id_col = Some ''8'', brand_name_col = Some [],
       title_col = None, country_code_col = None\<rparr>,
      \<lparr>asin_col = Some ''B03'', brand_id_col = None, brand_name_col = None,
       title_col = None, country_code_col = None\<rparr>]"

definition example_transactions :: "pydict list" where
  "example_transactions =
     [[(''merchant_name'', PStr ''Acme''), (''sale_amount'', PStr ''10.5''), (''sale_comm'', PInt 1)],
      [(''merchant_name'', PStr ''Acme''), (''sale_amount'', PStr ''N/A'')],
      [(''sale_amount'', PInt 3)]]"

definition example_rows :: "pydict list" where
  "example_rows =
     [[(''asin'', PStr ''B01''), (''quantity'', PInt 2), (''sales'', PFloat 5)],
      [(''asin'', PStr ''B01''), (''quantity'', PInt 0), (''sales'', PFloat 1)],
      [(''asin'', PStr ''B01''), (''estCommission'', PFloat 1)],
      [(''asin'', PStr ''B09''), (''quantity'', PFloat (3 / 2))]]"

definition first_product :: pydict where
  "first_product =
     [(''asin'', PStr ''B01''), (''brand_id'', PInt 7), (''brand_name'', PStr ''Acme''),
      (''title'', PStr ''Widget''), (''country_code'', PStr ''US'')]"

definition second_product :: pydict where
  "second_product =
     [(''asin'', PStr ''B01''), (''brand_id'', PInt 8), (''brand'', PStr ''Apex''),
      (''name'', PStr ''Gadget'')]"


section \<open>Properties\<close>

subsection \<open>Helper facts\<close>

lemmas number_readers =
  float_of_str_def int_of_str_def take_sign_def strip_def is_space_def lower_def
  float_literal_def is_digit_def exponent_part_def scale10_def nat_of_digits_def digit_val_def

lemma ebind_simps [simp]:
  "ebind (Inl e) f = Inl e"
  "ebind (Inr x) f = f x"
  by (simp_all add: ebind_def)

lemma ebind_InrD: "ebind m f = Inr y \<Longrightarrow> \<exists>x. m = Inr x \<and> f x = Inr y"
  by (cases m) simp_all

lemma float_of_str_NA: "float_of_str ''N/A'' = None"
  by (simp add: number_readers)

lemma non_numeric_NA: "non_numeric (PStr ''N/A'')"
  by (simp add: non_numeric_def float_of_str_NA is_ascii_def)

lemma status_codeD:
  assumes "status_code body = Some c"
  obtains d s where "body = PDict d" "map_of d ''status'' = Some (PDict s)"
    "map_of s ''code'' = Some c"
  using assms
  by (auto simp: status_code_def field_def split: pyval.splits option.splits)

lemma has_statusD:
  assumes "has_status body code msg"
  obtains d s where "body = PDict d" "map_of d ''status'' = Some (PDict s)"
    "dict_get s ''code'' PNone = code" "dict_get s ''msg'' PNone = msg"
proof -
  from assms obtain d where d: "body = PDict d"
    by (cases body) (auto simp: has_status_def field_def)
  with assms obtain v where v: "map_of d ''status'' = Some v"
    by (cases "map_of d ''status''") (auto simp: has_status_def field_def)
  with assms d obtain s where s: "v = PDict s"
    by (cases v) (auto simp: has_status_def field_def)
  from assms d v s have "dict_get s ''code'' PNone = code" "dict_get s ''msg'' PNone = msg"
    by (auto simp: has_status_def field_def)
  with d v s that show ?thesis
    by simp
qed

lemma data_fieldD:
  assumes "data_field body k = Some v"
  obtains d db where "body = PDict d" "map_of d ''data'' = Some (PDict db)" "map_of db k = Some v"
  using assms
  by (auto simp: data_field_def field_def split: pyval.splits option.splits)

lemma page_itemsD:
  assumes "page_items body = Some xs"
  shows "data_field body ''list'' = Some (PList xs)"
  using assms by (auto simp: page_items_def split: option.splits pyval.splits)

text \<open>What the loop bodies do with a successful page whose items are a list.\<close>

lemma transaction_page_ok:
  assumes "status_ok body" "page_items body = Some xs"
  shows "transaction_page page acc body =
     (if xs = [] then Inr (Break acc)
      else ebind (py_int (case data_field body ''total_page'' of None \<Rightarrow> PInt 1 | Some tp \<Rightarrow> tp))
             (\<lambda>total_page. if page \<ge> total_page then Inr (Break (acc @ xs))
                            else Inr (Continue (acc @ xs))))"
proof -
  from assms(1) obtain c where c: "status_code body = Some c" "py_eq_int c 0"
    by (auto simp: status_ok_def split: option.splits)
  from c(1) obtain d s where d: "body = PDict d" "map_of d ''status'' = Some (PDict s)"
      "map_of s ''code'' = Some c"
    by (rule status_codeD)
  from page_itemsD[OF assms(2)] obtain d' db where db: "body = PDict d'"
      "map_of d' ''data'' = Some (PDict db)" "map_of db ''list'' = Some (PList xs)"
    by (rule data_fieldD)
  from d(1) db(1) have [simp]: "d' = d" by simp
  have tp: "data_field (PDict d) ''total_page'' = map_of db ''total_page''"
    using db(2) by (simp add: data_field_def field_def)
  show ?thesis
    using d c(2) db(2,3)
    by (simp add: transaction_page_def py_get_def dict_get_def tp split: option.splits)
qed

lemma amazon_page_ok:
  assumes "status_ok body" "page_items body = Some xs"
  shows "amazon_page acc body =
     (if has_more body then Inr (Continue (acc @ xs)) else Inr (Break (acc @ xs)))"
proof -
  from assms(1) obtain c where c: "status_code body = Some c" "py_eq_int c 0"
    by (auto simp: status_ok_def split: option.splits)
  from c(1) obtain d s where d: "body = PDict d" "map_of d ''status'' = Some (PDict s)"
      "map_of s ''code'' = Some c"
    by (rule status_codeD)
  from page_itemsD[OF assms(2)] obtain d' db where db: "body = PDict d'"
      "map_of d' ''data'' = Some (PDict db)" "map_of db ''list'' = Some (PList xs)"
    by (rule data_fieldD)
  from d(1) db(1) have [simp]: "d' = d" by simp
  have hm: "data_field (PDict d) ''has_more'' = map_of db ''has_more''"
    using db(2) by (simp add: data_field_def field_def)
  show ?thesis
    using d c(2) db(2,3)
    by (simp add: amazon_page_def py_get_def dict_get_def has_more_def hm split: option.splits)
qed

text \<open>The three loop bodies on a body whose status code is not accepted: the data is not
  looked at.\<close>

lemma transaction_page_error:
  assumes "has_status body code msg" "\<not> py_eq_int code 0"
  shows "transaction_page page acc body =
     Inl (RuntimeError_api [Lit ''API error '', Shown code, Lit '': '', Shown msg])"
proof -
  from assms(1) obtain d s where "body = PDict d" "map_of d ''status'' = Some (PDict s)"
    "dict_get s ''code'' PNone = code" "dict_get s ''msg'' PNone = msg"
    by (rule has_statusD)
  with assms(2) show ?thesis
    by (simp add: transaction_page_def py_get_def dict_get_def)
qed

lemma amazon_page_error:
  assumes "has_status body code msg" "\<not> py_eq_int code 0"
  shows "amazon_page acc body =
     Inl (RuntimeError_api [Lit ''API error: '', Shown code, Lit '' '', Shown msg])"
proof -
  from assms(1) obtain d s where "body = PDict d" "map_of d ''status'' = Some (PDict s)"
    "dict_get s ''code'' PNone = code" "dict_get s ''msg'' PNone = msg"
    by (rule has_statusD)
  with assms(2) show ?thesis
    by (simp add: amazon_page_def py_get_def dict_get_def)
qed

lemma fba_envelope_status:
  assumes "has_status body code msg"
  shows "fba_envelope body =
     (if py_eq_int code 0 \<or> py_eq_str code ''0'' then Inr body
      else Inl (RuntimeError_api [Lit ''API error: code='', Shown code, Lit '', msg='', Shown msg]))"
proof -
  from assms(1) obtain d s where "body = PDict d" "map_of d ''status'' = Some (PDict s)"
    "dict_get s ''code'' PNone = code" "dict_get s ''msg'' PNone = msg"
    by (rule has_statusD)
  then show ?thesis
    by (simp add: fba_envelope_def py_get_def dict_get_def)
qed

text \<open>The example bodies, read field by field.\<close>

lemma envelope_fields:
  "status_code (envelope code msg xs extra) = Some code"
  "page_items (envelope code msg xs extra) = Some xs"
  "data_field (envelope code msg xs extra) k = map_of ((''list'', PList xs) # extra) k"
  "has_status (envelope code msg xs extra) code (PStr msg)"
  by (simp_all add: envelope_def status_code_def page_items_def data_field_def field_def
      has_status_def dict_get_def)

lemma envelope_ok:
  "status_ok (envelope (PInt 0) msg xs extra)"
  by (simp add: status_ok_def envelope_fields)

lemma some_token: "\<not> no_token (Some ''secret'')"
  by (simp add: no_token_def)

text \<open>The has\_more loop over the pages \<open>page, ..., n\<close>, of which only the last has a false
  or absent flag.\<close>

lemma amazon_loop_run:
  assumes "\<forall>p\<in>{page..n}. post p = Inr (body p) \<and> status_ok (body p)
      \<and> page_items (body p) = Some (items p) \<and> has_more (body p) = (p < n)"
    and "page \<le> n"
  shows "amazon_loop post page acc reqs =
     Some (Inr (acc @ concat (map items [page..n])), reqs @ [page..n])"
  using assms
proof (induction "nat (n - page)" arbitrary: page acc reqs)
  case 0
  then have "page = n" by simp
  with 0 show ?case
    by (subst amazon_loop.simps) (simp add: amazon_page_ok)
next
  case (Suc k)
  then have lt: "page < n" by simp
  have k: "k = nat (n - (page + 1))" using Suc(2) by simp
  have rest: "\<forall>p\<in>{page + 1..n}. post p = Inr (body p) \<and> status_ok (body p)
      \<and> page_items (body p) = Some (items p) \<and> has_more (body p) = (p < n)"
    using Suc(3) by simp
  have here: "post page = Inr (body page)" "status_ok (body page)"
      "page_items (body page) = Some (items page)" "has_more (body page)"
    using Suc(3) lt by auto
  have up: "[page..n] = page # [page + 1..n]"
    using lt by (simp add: upto_rec1)
  show ?case
    using Suc(1)[OF k rest] lt here
    by (subst amazon_loop.simps) (simp add: amazon_page_ok up)
qed

text \<open>The running totals of the brands.\<close>

lemma fadd_zero [simp]: "fadd x (Fin 0) = x"
  by (cases x) simp_all

lemma entry_upd [simp]: "entry (m(k \<mapsto> s)) k' = (if k' = k then s else entry m k')"
  by (simp add: entry_def)

lemma entry_empty [simp]: "entry Map.empty k = default_stats"
  by (simp add: entry_def)

lemma orders_add:
  "orders (entry (add_order res k) k') = orders (entry res k') + (if k' = k then 1 else 0)"
  "orders (entry (add_sales res k x) k') = orders (entry res k')"
  "orders (entry (add_commission res k x) k') = orders (entry res k')"
  by (simp_all add: add_order_def add_sales_def add_commission_def)

lemma dom_add:
  "dom (add_order res k) = insert k (dom res)"
  "dom (add_sales res k x) = insert k (dom res)"
  "dom (add_commission res k x) = insert k (dom res)"
  by (simp_all add: add_order_def add_sales_def add_commission_def)

lemma add_zero_after_order:
  "add_sales (add_order res k) k (Fin 0) = add_order res k"
  "add_commission (add_order res k) k (Fin 0) = add_order res k"
  by (simp_all add: add_sales_def add_commission_def add_order_def fun_eq_iff)

lemma transaction_row_orders:
  assumes "transaction_row res t = Inr res'"
  shows "orders (entry res' k) = orders (entry res k)
     + (if py_hash_key (transaction_brand t) = Inr k then 1 else 0)"
  using assms
  by (auto simp: transaction_row_def Let_def orders_add dest!: ebind_InrD)

lemma transaction_rows_orders:
  "transaction_rows res ts = Inr res' \<Longrightarrow>
   orders (entry res' k) = orders (entry res k)
     + int (length (filter (\<lambda>t. py_hash_key (transaction_brand t) = Inr k) ts))"
proof (induction ts arbitrary: res)
  case Nil
  then show ?case by simp
next
  case (Cons t ts)
  from Cons.prems obtain r1 where r1: "transaction_row res t = Inr r1"
      "transaction_rows r1 ts = Inr res'"
    by (auto dest!: ebind_InrD)
  from Cons.IH[OF r1(2)] transaction_row_orders[OF r1(1), of k] show ?case
    by simp
qed

lemma quantity_positive_iff:
  "py_gt_zero (py_or (dict_get r ''quantity'' (PInt 0)) (PInt 0)) = Inr pos
   \<Longrightarrow> pos = quantity_positive r"
  by (auto simp: dict_get_def py_or_def quantity_positive_def
      split: option.splits pyval.splits if_splits)

lemma amazon_row_Inr:
  assumes "amazon_row rt conn res r = Inr res'"
  obtains brand s c where "amazon_brand rt conn r = Inr brand"
    "res' = add_commission
       (add_sales (if quantity_positive r then add_order res brand else res) brand s) brand c"
proof -
  from assms obtain brand pos s c where
    b: "amazon_brand rt conn r = Inr brand"
    and q: "py_gt_zero (py_or (dict_get r ''quantity'' (PInt 0)) (PInt 0)) = Inr pos"
    and r: "res' = add_commission (add_sales (if pos then add_order res brand else res) brand s) brand c"
    by (auto simp: amazon_row_def Let_def dest!: ebind_InrD)
  from quantity_positive_iff[OF q] b r that show ?thesis
    by simp
qed

lemma amazon_row_orders:
  assumes "amazon_row rt conn res r = Inr res'"
  shows "orders (entry res' b) = orders (entry res b)
     + (if amazon_brand rt conn r = Inr b \<and> quantity_positive r then 1 else 0)"
  using assms by (elim amazon_row_Inr) (auto simp: orders_add)

lemma amazon_rows_orders:
  "amazon_rows rt conn res rows = Inr res' \<Longrightarrow>
   orders (entry res' b) = orders (entry res b)
     + int (length (filter (\<lambda>r. amazon_brand rt conn r = Inr b \<and> quantity_positive r) rows))"
proof (induction rows arbitrary: res)
  case Nil
  then show ?case by simp
next
  case (Cons r rows)
  from Cons.prems obtain r1 where r1: "amazon_row rt conn res r = Inr r1"
      "amazon_rows rt conn r1 rows = Inr res'"
    by (auto dest!: ebind_InrD)
  from Cons.IH[OF r1(2)] amazon_row_orders[OF r1(1), of b] show ?case
    by simp
qed

lemma float_or_zero_non_numeric:
  "missing_or_non_numeric t k \<Longrightarrow> float_or_zero (dict_get t k (PInt 0)) = Inr (Fin 0)"
  by (auto simp: missing_or_non_numeric_def non_numeric_def float_or_zero_def dict_get_def
      py_or_def split: option.splits pyval.splits)

text \<open>The table of products.\<close>

lemma rows_with_update:
  assumes "\<And>r. asin_col (f r) = asin_col r"
  shows "rows_with (map (\<lambda>r. if asin_col r = a then f r else r) tbl) c
     = map (\<lambda>r. if asin_col r = a then f r else r) (rows_with tbl c)"
  using assms by (induction tbl) (auto simp: rows_with_def)

lemma insert_on_conflict_update_rows:
  assumes "asin_col new = Some c" "length (rows_with tbl c) \<le> 1"
  shows "length (rows_with (insert_on_conflict_update tbl new) c) = 1
    \<and> (\<forall>r\<in>set (rows_with (insert_on_conflict_update tbl new) c).
          brand_id_col r = brand_id_col new \<and> brand_name_col r = brand_name_col new
        \<and> title_col r = title_col new \<and> country_code_col r = country_code_col new)"
proof (cases "Some c \<in> set (map asin_col tbl)")
  case True
  then have "rows_with tbl c \<noteq> []"
    by (auto simp: rows_with_def filter_empty_conv)
  with assms(2) have one: "length (rows_with tbl c) = 1"
    by (cases "rows_with tbl c") auto
  have upd: "insert_on_conflict_update tbl new =
      map (\<lambda>r. if asin_col r = Some c
                then r\<lparr>brand_id_col := brand_id_col new, brand_name_col := brand_name_col new,
                       title_col := title_col new, country_code_col := country_code_col new\<rparr>
                else r) tbl"
    using True assms(1) by (simp add: insert_on_conflict_update_def)
  have sub: "set (rows_with tbl c) \<subseteq> {r. asin_col r = Some c}"
    by (auto simp: rows_with_def)
  show ?thesis
    unfolding upd using one sub
    by (subst rows_with_update, simp)+ auto
next
  case False
  then have none: "rows_with tbl c = []"
    by (force simp: rows_with_def filter_empty_conv)
  have "insert_on_conflict_update tbl new = tbl @ [new]"
    using False assms(1) by (simp add: insert_on_conflict_update_def)
  then show ?thesis
    using none assms(1) by (simp add: rows_with_def)
qed

lemma upsert_product_Inr:
  assumes "upsert_product rt (Some tbl) p = Inr conn'" "truthy (dict_get p ''asin'' PNone)"
    "sql_text rt (dict_get p ''asin'' PNone) = Inr a"
  shows "\<exists>bi bn ti cc.
      sql_text rt (dict_get p ''brand_id'' PNone) = Inr bi
    \<and> sql_text rt (py_or (dict_get p ''brand_name'' PNone) (dict_get p ''brand'' PNone)) = Inr bn
    \<and> sql_text rt (py_or (dict_get p ''title'' PNone) (dict_get p ''name'' PNone)) = Inr ti
    \<and> sql_text rt (dict_get p ''country_code'' PNone) = Inr cc
    \<and> conn' = Some (insert_on_conflict_update tbl
          \<lparr>asin_col = a, brand_id_col = bi, brand_name_col = bn, title_col = ti,
           country_code_col = cc\<rparr>)"
  using assms
  by (auto simp: upsert_product_def execute_upsert_def Let_def dest!: ebind_InrD)

lemma rows_with_single:
  assumes "length (rows_with tbl c) \<le> 1" "r \<in> set tbl" "asin_col r = Some c"
  shows "rows_with tbl c = [r]"
proof -
  have "r \<in> set (rows_with tbl c)" using assms(2,3) by (simp add: rows_with_def)
  with assms(1) show ?thesis
    by (cases "rows_with tbl c") auto
qed

lemma select_rows_with:
  "select_brand_name tbl (Some c) = map brand_name_col (rows_with tbl c)"
  by (simp add: select_brand_name_def rows_with_def)

subsection \<open>Numeric coercion in the two aggregations\<close>

text \<open>
  C1. The claim: in both aggregation modes a sales or commission value that is missing
  or not numeric contributes 0.0 and aggregation never raises on it. The datafeed mode
  does not do this: \<open>amazon_aggregate_by_brand\<close> has no handler around
  \<^verbatim>\<open>float(sales)\<close>, so a row of the datafeed report whose \<^verbatim>\<open>sales\<close> is the string
  \<^verbatim>\<open>"N/A"\<close> ends the whole aggregation with a \<^verbatim>\<open>ValueError\<close>, whatever the table of
  products holds for its code. The transaction mode does what the claim says, as the
  next theorem shows.
\<close>

theorem amazon_aggregate_raises_on_non_numeric_sales:
  "amazon_aggregate_by_brand real_text (Some example_products)
     [[(''asin'', PStr ''B01''), (''quantity'', PInt 1), (''sales'', PStr ''N/A''),
       (''estCommission'', PFloat 1)]]
   = Inl ValueError"
  by (simp add: amazon_aggregate_by_brand_def amazon_row_def amazon_brand_def dict_get_def
      py_or_def get_brand_name_from_db_def select_brand_name_def fetchone_def
      example_products_def float_of_str_NA)

text \<open>
  X1. In transaction mode an amount that is missing or not numeric is read as 0.0; a row
  whose two amounts are both of this kind, and whose brand is hashable, only counts one
  order for its brand and raises nothing.
\<close>

theorem transaction_mode_reads_non_numeric_as_zero:
  assumes "missing_or_non_numeric t k"
  shows "float_or_zero (dict_get t k (PInt 0)) = Inr (Fin 0)
    \<and> (k = ''sale_amount'' \<and> missing_or_non_numeric t ''sale_comm''
         \<and> py_hash_key (transaction_brand t) = Inr b
       \<longrightarrow> transaction_row result t = Inr (add_order result b))"
  using assms
  by (auto simp: float_or_zero_non_numeric transaction_row_def add_zero_after_order)

theorem transaction_mode_non_numeric_witness:
  "missing_or_non_numeric [(''merchant_name'', PStr ''Acme''), (''sale_amount'', PStr ''N/A'')]
     ''sale_amount''
   \<and> float_or_zero (dict_get [(''merchant_name'', PStr ''Acme''), (''sale_amount'', PStr ''N/A'')]
        ''sale_amount'' (PInt 0)) = Inr (Fin 0)
   \<and> transaction_row Map.empty [(''merchant_name'', PStr ''Acme''), (''sale_amount'', PStr ''N/A'')]
       = Inr (add_order Map.empty (KStr ''Acme''))"
proof -
  let ?t = "[(''merchant_name'', PStr ''Acme''), (''sale_amount'', PStr ''N/A'')]"
  have a: "missing_or_non_numeric ?t ''sale_amount''"
    by (simp add: missing_or_non_numeric_def non_numeric_NA)
  have c: "missing_or_non_numeric ?t ''sale_comm''"
    by (simp add: missing_or_non_numeric_def)
  have b: "py_hash_key (transaction_brand ?t) = Inr (KStr ''Acme'')"
    by (simp add: transaction_brand_def dict_get_def py_or_def)
  from transaction_mode_reads_non_numeric_as_zero [OF a, of "KStr ''Acme''" Map.empty] a b c
  show ?thesis
    by simp
qed

subsection \<open>The status code of a response\<close>

text \<open>
  C2. The claim: every fetcher takes the status code 0 and the status code \<^verbatim>\<open>"0"\<close> for
  success. \<open>fetch_fba_products_page\<close> does (\<^verbatim>\<open>code not in (0, "0")\<close>), but
  \<open>fetch_transactions\<close> and \<open>fetch_amazon_report\<close> compare with the integer only
  (\<^verbatim>\<open>status.get("code") != 0\<close>): on a first page whose status code is the string
  \<^verbatim>\<open>"0"\<close> both end with the API error, after one request, while
  \<open>fetch_fba_products_page\<close> returns the body.
\<close>

theorem string_zero_status_aborts_two_fetchers:
  "fetch_transactions (Some ''secret'') (numbered_pages (PStr ''0'') [(''total_page'', PInt 1)])
     = Some (Inl (RuntimeError_api
          [Lit ''API error '', Shown (PStr ''0''), Lit '': '', Shown (PStr ''success'')]), [1])
   \<and> fetch_amazon_report (Some ''secret'') (numbered_pages (PStr ''0'') [(''total_page'', PInt 1)])
     = Some (Inl (RuntimeError_api
          [Lit ''API error: '', Shown (PStr ''0''), Lit '' '', Shown (PStr ''success'')]), [1])
   \<and> fetch_fba_products_page (Some ''secret'')
        (numbered_pages (PStr ''0'') [(''total_page'', PInt 1)]) 1
     = (Inr (envelope (PStr ''0'') ''success'' [PInt 1] [(''total_page'', PInt 1)]), [1])"
  by (simp add: fetch_transactions_def fetch_amazon_report_def fetch_fba_products_page_def
      some_token numbered_pages_def transaction_loop.simps [of _ 1] amazon_loop.simps [of _ 1]
      transaction_page_error [OF envelope_fields(4)] amazon_page_error [OF envelope_fields(4)]
      fba_envelope_status [OF envelope_fields(4)])

text \<open>
  X2. A status code that a fetcher does not accept ends the fetch with an error that holds
  the code and the message, whatever the body holds under \<^verbatim>\<open>data\<close> and whatever was
  fetched before. \<open>fetch_transactions\<close> and \<open>fetch_amazon_report\<close> accept what equals
  the integer 0; \<open>fetch_fba_products_page\<close> also accepts the string \<^verbatim>\<open>"0"\<close>.
\<close>

theorem rejected_status_code_aborts_with_code_and_message:
  assumes "post page = Inr body" and "has_status body code msg"
  shows "(\<not> py_eq_int code 0 \<longrightarrow>
            transaction_loop post page all_items requested
              = Some (Inl (RuntimeError_api
                  [Lit ''API error '', Shown code, Lit '': '', Shown msg]), requested @ [page])
          \<and> amazon_loop post page all_items requested
              = Some (Inl (RuntimeError_api
                  [Lit ''API error: '', Shown code, Lit '' '', Shown msg]), requested @ [page]))
    \<and> (\<not> no_token token \<longrightarrow>
          fetch_fba_products_page token post page
            = (if py_eq_int code 0 \<or> py_eq_str code ''0'' then Inr body
               else Inl (RuntimeError_api
                  [Lit ''API error: code='', Shown code, Lit '', msg='', Shown msg]), [page]))"
  using assms
  by (simp add: transaction_loop.simps [of post page] amazon_loop.simps [of post page]
      transaction_page_error amazon_page_error fba_envelope_status fetch_fba_products_page_def)

theorem rejected_status_code_witness:
  "transaction_loop (numbered_pages (PInt 7) []) 3 [PInt 1, PInt 2] [1, 2]
     = Some (Inl (RuntimeError_api
          [Lit ''API error '', Shown (PInt 7), Lit '': '', Shown (PStr ''success'')]), [1, 2, 3])
   \<and> amazon_loop (numbered_pages (PInt 7) []) 3 [PInt 1, PInt 2] [1, 2]
     = Some (Inl (RuntimeError_api
          [Lit ''API error: '', Shown (PInt 7), Lit '' '', Shown (PStr ''success'')]), [1, 2, 3])
   \<and> fetch_fba_products_page (Some ''secret'') (numbered_pages (PInt 7) []) 3
     = (Inl (RuntimeError_api
          [Lit ''API error: code='', Shown (PInt 7), Lit '', msg='', Shown (PStr ''success'')]), [3])"
proof -
  have p: "numbered_pages (PInt 7) [] 3 = Inr (envelope (PInt 7) ''success'' [PInt 3] [])"
    by (simp add: numbered_pages_def)
  have h: "has_status (envelope (PInt 7) ''success'' [PInt 3] []) (PInt 7) (PStr ''success'')"
    by (rule envelope_fields(4))
  from rejected_status_code_aborts_with_code_and_message [of "numbered_pages (PInt 7) []" 3
      "envelope (PInt 7) ''success'' [PInt 3] []" "PInt 7" "PStr ''success''"
      "[PInt 1, PInt 2]" "[1, 2]" "Some ''secret''", OF p h]
  show ?thesis
    by (simp add: some_token)
qed

subsection \<open>Missing credential\<close>

text \<open>
  C5. When the credential is absent from the environment (\<^verbatim>\<open>os.getenv\<close> returns
  \<^verbatim>\<open>None\<close>, or the empty string), each of \<open>fetch_transactions\<close>,
  \<open>fetch_amazon_report\<close> and \<open>fetch_fba_products_page\<close> ends with the
  configure-token error, and the list of the requests it has issued is empty.
\<close>

theorem missing_token_raises_before_any_request:
  assumes "no_token token"
  shows "fetch_transactions token post = Some (Inl (RuntimeError_token ''PARTNERBOOST_TOKEN''), [])
    \<and> fetch_amazon_report token post = Some (Inl (RuntimeError_token ''PARTNERBOOST_TOKEN''), [])
    \<and> fetch_fba_products_page token post page = (Inl (RuntimeError_token ''PARTNERBOOST_TOKEN''), [])"
  using assms
  by (simp add: fetch_transactions_def fetch_amazon_report_def fetch_fba_products_page_def
      TOKEN_ENV_NAME_def)

theorem missing_token_witness:
  "no_token None
   \<and> fetch_transactions None (numbered_pages (PInt 0) [])
       = Some (Inl (RuntimeError_token ''PARTNERBOOST_TOKEN''), [])
   \<and> fetch_amazon_report None (numbered_pages (PInt 0) [])
       = Some (Inl (RuntimeError_token ''PARTNERBOOST_TOKEN''), [])
   \<and> fetch_fba_products_page None (numbered_pages (PInt 0) []) 1
       = (Inl (RuntimeError_token ''PARTNERBOOST_TOKEN''), [])"
proof -
  have h: "no_token None" by (simp add: no_token_def)
  show ?thesis
    using h missing_token_raises_before_any_request [OF h, of "numbered_pages (PInt 0) []" 1]
    by simp
qed

subsection \<open>The has\_more protocol\<close>

text \<open>
  C3. With a token, let the requests for the pages \<open>1, ..., n\<close> be answered by successful
  bodies whose item lists are \<open>items 1, ..., items n\<close>, the flag \<^verbatim>\<open>has_more\<close> being
  truthy on the pages before \<open>n\<close> and false or absent on page \<open>n\<close>. Then
  \<open>fetch_amazon_report\<close> returns the concatenation of the item lists in page order and
  has requested exactly the pages \<open>1, ..., n\<close>, one request each. The witness is the
  sequence of three pages with 3, 2 and 1 items: 6 items and 3 requests.
\<close>

theorem fetch_amazon_report_concatenates_pages:
  assumes "\<not> no_token token" and "1 \<le> n"
    and "\<forall>p\<in>{1..n}. post p = Inr (body p) \<and> status_ok (body p)
      \<and> page_items (body p) = Some (items p) \<and> has_more (body p) = (p < n)"
  shows "fetch_amazon_report token post = Some (Inr (concat (map items [1..n])), [1..n])"
  using assms amazon_loop_run [of 1 n post body items "[]" "[]"]
  by (simp add: fetch_amazon_report_def)

theorem fetch_amazon_report_three_pages:
  "fetch_amazon_report (Some ''secret'') three_pages
     = Some (Inr [PInt 1, PInt 2, PInt 3, PInt 4, PInt 5, PInt 6], [1, 2, 3])
   \<and> length [PInt 1, PInt 2, PInt 3, PInt 4, PInt 5, PInt 6] = 6
   \<and> length [1, 2, 3 :: int] = 3"
proof -
  have pages: "\<forall>p\<in>{1..3}. three_pages p = Inr (three_bodies p) \<and> status_ok (three_bodies p)
      \<and> page_items (three_bodies p) = Some (three_items p) \<and> has_more (three_bodies p) = (p < 3)"
  proof
    fix p :: int assume "p \<in> {1..3}"
    then have "p = 1 \<or> p = 2 \<or> p = 3" by auto
    then show "three_pages p = Inr (three_bodies p) \<and> status_ok (three_bodies p)
      \<and> page_items (three_bodies p) = Some (three_items p) \<and> has_more (three_bodies p) = (p < 3)"
      by (auto simp: three_pages_def three_bodies_def three_items_def envelope_ok
          envelope_fields has_more_def)
  qed
  have "concat (map three_items [1..3]) = [PInt 1, PInt 2, PInt 3, PInt 4, PInt 5, PInt 6]"
    by (simp add: upto.simps three_items_def three_bodies_def three_pages_def envelope_fields)
  moreover have "[1..3] = [1, 2, 3::int]"
    by (simp add: upto.simps)
  ultimately show ?thesis
    using fetch_amazon_report_concatenates_pages [OF some_token _ pages] by simp
qed

subsection \<open>The total\_page protocol\<close>

text \<open>
  C4. With a token and a successful first page: when the first page has no items,
  \<open>fetch_transactions\<close> stops after this one request with no items. When the first
  page has items and declares \<^verbatim>\<open>total_page\<close> to be the integer 2, page 2 is requested,
  and the fetch stops after it, with the items of both pages, whether page 2 is empty
  or has items and declares \<^verbatim>\<open>total_page\<close> to be 2 again: page 3 is never requested.
\<close>

theorem fetch_transactions_total_page_two:
  assumes "\<not> no_token token"
    and "post 1 = Inr b1" "status_ok b1" "page_items b1 = Some xs1"
  shows "(xs1 = [] \<longrightarrow> fetch_transactions token post = Some (Inr [], [1]))
    \<and> (xs1 \<noteq> [] \<and> declares_total_page b1 2 \<and> post 2 = Inr b2 \<and> status_ok b2
        \<and> page_items b2 = Some xs2 \<and> (xs2 = [] \<or> declares_total_page b2 2)
        \<longrightarrow> fetch_transactions token post = Some (Inr (xs1 @ xs2), [1, 2]))"
proof (intro conjI impI)
  assume "xs1 = []"
  with assms show "fetch_transactions token post = Some (Inr [], [1])"
    by (simp add: fetch_transactions_def transaction_loop.simps [of post 1] transaction_page_ok)
next
  assume a: "xs1 \<noteq> [] \<and> declares_total_page b1 2 \<and> post 2 = Inr b2 \<and> status_ok b2
        \<and> page_items b2 = Some xs2 \<and> (xs2 = [] \<or> declares_total_page b2 2)"
  have second: "transaction_loop post 2 xs1 [1] = Some (Inr (xs1 @ xs2), [1, 2])"
    using a
    by (subst transaction_loop.simps)
       (auto simp: transaction_page_ok declares_total_page_def split: option.splits)
  have "transaction_loop post 1 [] [] = transaction_loop post 2 xs1 [1]"
    using a assms
    by (subst transaction_loop.simps)
       (auto simp: transaction_page_ok declares_total_page_def split: option.splits)
  with second assms(1) show "fetch_transactions token post = Some (Inr (xs1 @ xs2), [1, 2])"
    by (simp add: fetch_transactions_def)
qed

theorem fetch_transactions_total_page_two_witness:
  "fetch_transactions (Some ''secret'') (numbered_pages (PInt 0) [(''total_page'', PInt 2)])
     = Some (Inr [PInt 1, PInt 2], [1, 2])
   \<and> fetch_transactions (Some ''secret'') (empty_pages [(''total_page'', PInt 2)])
     = Some (Inr [], [1])"
proof -
  let ?tp = "[(''total_page'', PInt 2)]"
  have d: "declares_total_page (envelope (PInt 0) ''success'' xs ?tp) 2" for xs
    by (simp add: declares_total_page_def envelope_fields)
  have "fetch_transactions (Some ''secret'') (numbered_pages (PInt 0) ?tp)
      = Some (Inr ([PInt 1] @ [PInt 2]), [1, 2])"
    using fetch_transactions_total_page_two [OF some_token, of "numbered_pages (PInt 0) ?tp"
        "envelope (PInt 0) ''success'' [PInt 1] ?tp" "[PInt 1]"
        "envelope (PInt 0) ''success'' [PInt 2] ?tp" "[PInt 2]"]
    by (simp add: numbered_pages_def envelope_ok envelope_fields d)
  moreover have "fetch_transactions (Some ''secret'') (empty_pages ?tp) = Some (Inr [], [1])"
    using fetch_transactions_total_page_two [OF some_token, of "empty_pages ?tp"
        "envelope (PInt 0) ''success'' [] ?tp" "[]"]
    by (simp add: empty_pages_def envelope_ok envelope_fields)
  ultimately show ?thesis
    by simp
qed

text \<open>
  C10. A successful page with items and without the field \<^verbatim>\<open>total_page\<close> is a last page:
  the total page count defaults to 1, which no page index is below, so the loop of
  \<open>fetch_transactions\<close> stops at this page with its items added. When it is the first
  page, the fetch has made exactly one request and returns the items of this page.
\<close>

theorem total_page_defaults_to_one:
  assumes "post page = Inr body" "status_ok body" "page_items body = Some xs" "xs \<noteq> []"
    and "data_field body ''total_page'' = None" and "1 \<le> page"
  shows "transaction_loop post page all_items requested
      = Some (Inr (all_items @ xs), requested @ [page])
    \<and> (page = 1 \<and> \<not> no_token token \<longrightarrow> fetch_transactions token post = Some (Inr xs, [1]))"
proof -
  have *: "transaction_loop post page acc reqs = Some (Inr (acc @ xs), reqs @ [page])"
    for acc reqs
    using assms by (subst transaction_loop.simps) (simp add: transaction_page_ok)
  show ?thesis
    using *[of all_items requested] *[of "[]" "[]"] by (auto simp: fetch_transactions_def)
qed

theorem total_page_defaults_to_one_witness:
  "fetch_transactions (Some ''secret'') (numbered_pages (PInt 0) []) = Some (Inr [PInt 1], [1])
   \<and> transaction_loop (numbered_pages (PInt 0) []) 1 [] [] = Some (Inr [PInt 1], [1])"
  using total_page_defaults_to_one [of "numbered_pages (PInt 0) []" 1
      "envelope (PInt 0) ''success'' [PInt 1] []" "[PInt 1]" "[]" "[]" "Some ''secret''"]
  by (simp add: numbered_pages_def envelope_ok envelope_fields some_token)

subsection \<open>Order counts\<close>

text \<open>
  C6. When an aggregation returns, the order count it holds for a brand is the number
  of input rows that count for this brand: in transaction mode every row whose
  \<^verbatim>\<open>merchant_name\<close> (or \<^verbatim>\<open>"Unknown"\<close>) is this brand, in datafeed mode every row that
  resolves to this brand and whose \<^verbatim>\<open>quantity\<close> is present and positive. So each such
  row adds exactly 1 and nothing else adds to an order count; a brand without such a
  row has the count 0.
\<close>

theorem order_count_per_brand:
  "(transaction_aggregate_by_brand transactions = Inr result \<longrightarrow>
      orders (entry result k)
        = int (length (filter (\<lambda>t. py_hash_key (transaction_brand t) = Inr k) transactions)))
 \<and> (amazon_aggregate_by_brand real_text conn rows = Inr result' \<longrightarrow>
      orders (entry result' brand)
        = int (length (filter (\<lambda>r. amazon_brand real_text conn r = Inr brand
                                      \<and> quantity_positive r) rows)))"
  using transaction_rows_orders [of Map.empty transactions result k]
    amazon_rows_orders [of real_text conn Map.empty rows result' brand]
  by (simp add: transaction_aggregate_by_brand_def amazon_aggregate_by_brand_def
      default_stats_def)

lemma example_transactions_result:
  "\<exists>m. transaction_aggregate_by_brand example_transactions = Inr m"
  by (simp add: transaction_aggregate_by_brand_def example_transactions_def transaction_row_def
      transaction_brand_def dict_get_def py_or_def float_or_zero_def number_readers)

lemma example_rows_result:
  "\<exists>m. amazon_aggregate_by_brand (\<lambda>x. []) (Some example_products) example_rows = Inr m"
  by (simp add: amazon_aggregate_by_brand_def example_rows_def example_products_def
      amazon_row_def amazon_brand_def get_brand_name_from_db_def select_brand_name_def
      fetchone_def dict_get_def py_or_def)

theorem order_count_witness:
  "(case transaction_aggregate_by_brand example_transactions of
      Inl e \<Rightarrow> False
    | Inr m \<Rightarrow> orders (entry m (KStr ''Acme'')) = 2 \<and> orders (entry m (KStr ''Unknown'')) = 1
                \<and> orders (entry m (KStr ''Apex'')) = 0)
   \<and> (case amazon_aggregate_by_brand (\<lambda>x. []) (Some example_products) example_rows of
      Inl e \<Rightarrow> False
    | Inr m \<Rightarrow> orders (entry m ''Acme'') = 1 \<and> orders (entry m ''Unknown'') = 1)"
proof -
  obtain m where m: "transaction_aggregate_by_brand example_transactions = Inr m"
    using example_transactions_result by blast
  obtain m' where m': "amazon_aggregate_by_brand (\<lambda>x. []) (Some example_products) example_rows
      = Inr m'"
    using example_rows_result by blast
  have brands: "map (\<lambda>t. py_hash_key (transaction_brand t)) example_transactions
      = [Inr (KStr ''Acme''), Inr (KStr ''Acme''), Inr (KStr ''Unknown'')]"
    by (simp add: example_transactions_def transaction_brand_def dict_get_def py_or_def)
  have t: "orders (entry m (KStr b))
      = int (length (filter (\<lambda>x. x = Inr (KStr b))
               (map (\<lambda>t. py_hash_key (transaction_brand t)) example_transactions)))" for b
    using order_count_per_brand [of example_transactions m "KStr b"] m
    by (simp add: filter_map comp_def)
  have resolved: "map (\<lambda>r. (amazon_brand (\<lambda>x. []) (Some example_products) r, quantity_positive r))
        example_rows
      = [(Inr ''Acme'', True), (Inr ''Acme'', False), (Inr ''Acme'', False),
         (Inr ''Unknown'', True)]"
    by (simp add: example_rows_def example_products_def amazon_brand_def
        get_brand_name_from_db_def select_brand_name_def fetchone_def dict_get_def
        quantity_positive_def)
  have a: "orders (entry m' b)
      = int (length (filter (\<lambda>x. fst x = Inr b \<and> snd x)
               (map (\<lambda>r. (amazon_brand (\<lambda>x. []) (Some example_products) r, quantity_positive r))
                  example_rows)))" for b
    using order_count_per_brand [of _ _ _ "\<lambda>x. []" "Some example_products" example_rows m' b] m'
    by (simp add: filter_map comp_def)
  show ?thesis
    unfolding m m' by (simp add: t a brands resolved)
qed

subsection \<open>The Lookup Store\<close>

text \<open>
  C7. Let two product records carry the same product code, let the table hold at most
  one row for this code (\<^verbatim>\<open>asin\<close> is the primary key), and let both upserts go
  through, the first and then the second. Then the table holds exactly one row for the
  code, and this row's brand identifier, brand name, title and country code are the
  values bound from the second record: \<^verbatim>\<open>brand_id\<close>, \<^verbatim>\<open>brand_name\<close> or else
  \<^verbatim>\<open>brand\<close>, \<^verbatim>\<open>title\<close> or else \<^verbatim>\<open>name\<close>, and \<^verbatim>\<open>country_code\<close>.
\<close>

theorem upsert_twice_keeps_second:
  assumes same: "dict_get p1 ''asin'' PNone = a" "dict_get p2 ''asin'' PNone = a"
    and code: "truthy a" "sql_text real_text a = Inr (Some c)"
    and key: "length (rows_with tbl c) \<le> 1"
    and first: "upsert_product real_text (Some tbl) p1 = Inr conn1"
    and second: "upsert_product real_text conn1 p2 = Inr conn2"
  shows "\<exists>tbl2. conn2 = Some tbl2 \<and> length (rows_with tbl2 c) = 1
    \<and> (\<forall>r\<in>set (rows_with tbl2 c).
          sql_text real_text (dict_get p2 ''brand_id'' PNone) = Inr (brand_id_col r)
        \<and> sql_text real_text (py_or (dict_get p2 ''brand_name'' PNone) (dict_get p2 ''brand'' PNone))
            = Inr (brand_name_col r)
        \<and> sql_text real_text (py_or (dict_get p2 ''title'' PNone) (dict_get p2 ''name'' PNone))
            = Inr (title_col r)
        \<and> sql_text real_text (dict_get p2 ''country_code'' PNone) = Inr (country_code_col r))"
proof -
  from upsert_product_Inr[OF first] same(1) code
  obtain new1 where t1: "conn1 = Some (insert_on_conflict_update tbl new1)"
      "asin_col new1 = Some c"
    by auto
  let ?t1 = "insert_on_conflict_update tbl new1"
  from insert_on_conflict_update_rows[OF t1(2) key] have k1: "length (rows_with ?t1 c) \<le> 1"
    by simp
  from second t1(1) have "upsert_product real_text (Some ?t1) p2 = Inr conn2" by simp
  from upsert_product_Inr[OF this] same(2) code
  obtain bi bn ti cc where
    f: "sql_text real_text (dict_get p2 ''brand_id'' PNone) = Inr bi"
      "sql_text real_text (py_or (dict_get p2 ''brand_name'' PNone) (dict_get p2 ''brand'' PNone))
         = Inr bn"
      "sql_text real_text (py_or (dict_get p2 ''title'' PNone) (dict_get p2 ''name'' PNone))
         = Inr ti"
      "sql_text real_text (dict_get p2 ''country_code'' PNone) = Inr cc"
    and t2: "conn2 = Some (insert_on_conflict_update ?t1
          \<lparr>asin_col = Some c, brand_id_col = bi, brand_name_col = bn, title_col = ti,
           country_code_col = cc\<rparr>)"
    by auto
  from insert_on_conflict_update_rows[OF _ k1,
      of "\<lparr>asin_col = Some c, brand_id_col = bi, brand_name_col = bn, title_col = ti,
           country_code_col = cc\<rparr>"]
  show ?thesis
    using f t2 by simp
qed

lemma example_upserts:
  "upsert_product (\<lambda>x. []) (Some []) first_product
     = Inr (Some [\<lparr>asin_col = Some ''B01'', brand_id_col = Some ''7'',
                   brand_name_col = Some ''Acme'', title_col = Some ''Widget'',
                   country_code_col = Some ''US''\<rparr>])"
  "upsert_product (\<lambda>x. []) (Some [\<lparr>asin_col = Some ''B01'', brand_id_col = Some ''7'',
                   brand_name_col = Some ''Acme'', title_col = Some ''Widget'',
                   country_code_col = Some ''US''\<rparr>]) second_product
     = Inr (Some [\<lparr>asin_col = Some ''B01'', brand_id_col = Some ''8'',
                   brand_name_col = Some ''Apex'', title_col = Some ''Gadget'',
                   country_code_col = None\<rparr>])"
  by (simp_all add: upsert_product_def execute_upsert_def first_product_def second_product_def
      dict_get_def py_or_def insert_on_conflict_update_def dec_int_def dec_nat.simps)

theorem upsert_twice_witness:
  "upsert_product (\<lambda>x. []) (Some []) first_product
     = Inr (Some [\<lparr>asin_col = Some ''B01'', brand_id_col = Some ''7'',
                   brand_name_col = Some ''Acme'', title_col = Some ''Widget'',
                   country_code_col = Some ''US''\<rparr>])
   \<and> upsert_product (\<lambda>x. []) (Some [\<lparr>asin_col = Some ''B01'', brand_id_col = Some ''7'',
                   brand_name_col = Some ''Acme'', title_col = Some ''Widget'',
                   country_code_col = Some ''US''\<rparr>]) second_product
     = Inr (Some [\<lparr>asin_col = Some ''B01'', brand_id_col = Some ''8'',
                   brand_name_col = Some ''Apex'', title_col = Some ''Gadget'',
                   country_code_col = None\<rparr>])
   \<and> length (rows_with [\<lparr>asin_col = Some ''B01'', brand_id_col = Some ''8'',
                   brand_name_col = Some ''Apex'', title_col = Some ''Gadget'',
                   country_code_col = None\<rparr>] ''B01'') = 1"
proof -
  have "\<exists>tbl2. Some [\<lparr>asin_col = Some ''B01'', brand_id_col = Some ''8'',
                   brand_name_col = Some ''Apex'', title_col = Some ''Gadget'',
                   country_code_col = None\<rparr>] = Some tbl2 \<and> length (rows_with tbl2 ''B01'') = 1
    \<and> (\<forall>r\<in>set (rows_with tbl2 ''B01'').
          sql_text (\<lambda>x. []) (dict_get second_product ''brand_id'' PNone) = Inr (brand_id_col r)
        \<and> sql_text (\<lambda>x. []) (py_or (dict_get second_product ''brand_name'' PNone)
              (dict_get second_product ''brand'' PNone)) = Inr (brand_name_col r)
        \<and> sql_text (\<lambda>x. []) (py_or (dict_get second_product ''title'' PNone)
              (dict_get second_product ''name'' PNone)) = Inr (title_col r)
        \<and> sql_text (\<lambda>x. []) (dict_get second_product ''country_code'' PNone)
            = Inr (country_code_col r))"
  proof (rule upsert_twice_keeps_second [of first_product "PStr ''B01''" second_product
        "\<lambda>x. []" "''B01''" "[]", OF _ _ _ _ _ example_upserts])
    show "dict_get first_product ''asin'' PNone = PStr ''B01''"
      by (simp add: first_product_def dict_get_def)
    show "dict_get second_product ''asin'' PNone = PStr ''B01''"
      by (simp add: second_product_def dict_get_def)
    show "truthy (PStr ''B01'')" by simp
    show "sql_text (\<lambda>x. []) (PStr ''B01'') = Inr (Some ''B01'')" by simp
    show "length (rows_with [] ''B01'') \<le> 1" by (simp add: rows_with_def)
  qed
  then show ?thesis
    using example_upserts by simp
qed

text \<open>
  C8. On a table with at most one row per product code: when the row of the code holds
  a brand name that is not empty, \<open>get_brand_name_from_db\<close> returns it; when the table
  has no row for the code, or the row's brand name is empty or \<^verbatim>\<open>NULL\<close>, it returns
  \<^verbatim>\<open>"Unknown"\<close>. So a row of the datafeed report whose code has no row in the table
  resolves to the brand \<^verbatim>\<open>"Unknown"\<close>, and the aggregate of this one row has the one
  brand \<^verbatim>\<open>"Unknown"\<close>.
\<close>

theorem get_brand_name_lookup:
  assumes "conn = Some tbl" and "length (rows_with tbl c) \<le> 1"
  shows "(r \<in> set tbl \<and> asin_col r = Some c \<and> brand_name_col r = Some name \<and> name \<noteq> []
            \<longrightarrow> get_brand_name_from_db real_text conn (PStr c) = Inr name)
    \<and> (rows_with tbl c = []
         \<or> (r \<in> set tbl \<and> asin_col r = Some c
             \<and> (brand_name_col r = None \<or> brand_name_col r = Some []))
            \<longrightarrow> get_brand_name_from_db real_text conn (PStr c) = Inr ''Unknown'')
    \<and> (rows_with tbl c = [] \<and> dict_get row ''asin'' PNone = PStr c
            \<longrightarrow> amazon_brand real_text conn row = Inr ''Unknown''
              \<and> (\<forall>m. amazon_aggregate_by_brand real_text conn [row] = Inr m
                     \<longrightarrow> dom m = {''Unknown''}))"
proof (intro conjI impI allI)
  assume "r \<in> set tbl \<and> asin_col r = Some c \<and> brand_name_col r = Some name \<and> name \<noteq> []"
  with rows_with_single[OF assms(2), of r] assms(1)
  show "get_brand_name_from_db real_text conn (PStr c) = Inr name"
    by (simp add: get_brand_name_from_db_def select_rows_with fetchone_def)
next
  assume "rows_with tbl c = []
         \<or> (r \<in> set tbl \<and> asin_col r = Some c
             \<and> (brand_name_col r = None \<or> brand_name_col r = Some []))"
  with rows_with_single[OF assms(2), of r] assms(1)
  show "get_brand_name_from_db real_text conn (PStr c) = Inr ''Unknown''"
    by (auto simp: get_brand_name_from_db_def select_rows_with fetchone_def)
next
  assume a: "rows_with tbl c = [] \<and> dict_get row ''asin'' PNone = PStr c"
  with assms(1) show b: "amazon_brand real_text conn row = Inr ''Unknown''"
    by (simp add: amazon_brand_def get_brand_name_from_db_def select_rows_with fetchone_def)
  fix m assume "amazon_aggregate_by_brand real_text conn [row] = Inr m"
  then have "amazon_row real_text conn Map.empty row = Inr m"
    by (auto simp: amazon_aggregate_by_brand_def dest!: ebind_InrD)
  then show "dom m = {''Unknown''}"
    using b by (elim amazon_row_Inr) (auto simp: dom_add)
qed

theorem get_brand_name_witness:
  "get_brand_name_from_db (\<lambda>x. []) (Some example_products) (PStr ''B01'') = Inr ''Acme''
   \<and> get_brand_name_from_db (\<lambda>x. []) (Some example_products) (PStr ''B02'') = Inr ''Unknown''
   \<and> get_brand_name_from_db (\<lambda>x. []) (Some example_products) (PStr ''B03'') = Inr ''Unknown''
   \<and> get_brand_name_from_db (\<lambda>x. []) (Some example_products) (PStr ''B09'') = Inr ''Unknown''
   \<and> amazon_brand (\<lambda>x. []) (Some example_products) [(''asin'', PStr ''B09'')] = Inr ''Unknown''"
proof -
  have key: "length (rows_with example_products c) \<le> 1" for c
    by (auto simp: rows_with_def example_products_def)
  have none: "rows_with example_products ''B09'' = []"
    by (simp add: rows_with_def example_products_def)
  have "get_brand_name_from_db (\<lambda>x. []) (Some example_products) (PStr ''B01'') = Inr ''Acme''"
    using get_brand_name_lookup [OF refl key, of "example_products ! 0" "''B01''" "''Acme''"]
    by (simp add: example_products_def)
  moreover
  have "get_brand_name_from_db (\<lambda>x. []) (Some example_products) (PStr ''B02'') = Inr ''Unknown''"
    using get_brand_name_lookup [OF refl key, of "example_products ! 1" "''B02''"]
    by (simp add: example_products_def)
  moreover
  have "get_brand_name_from_db (\<lambda>x. []) (Some example_products) (PStr ''B03'') = Inr ''Unknown''"
    using get_brand_name_lookup [OF refl key, of "example_products ! 2" "''B03''"]
    by (simp add: example_products_def)
  moreover
  have "get_brand_name_from_db (\<lambda>x. []) (Some example_products) (PStr ''B09'') = Inr ''Unknown''
    \<and> amazon_brand (\<lambda>x. []) (Some example_products) [(''asin'', PStr ''B09'')] = Inr ''Unknown''"
    using get_brand_name_lookup [OF refl key, of _ "''B09''" _ _ "[(''asin'', PStr ''B09'')]"] none
    by (simp add: dict_get_def)
  ultimately show ?thesis
    by simp
qed

subsection \<open>The name of the report file\<close>







end
